theory Spec2Isabelle
  imports Main "HOL-Library.Sublist"
begin

section \<open>JavaScript values\<close>

text \<open>
  The data values that \<^verbatim>\<open>src/App.js\<close> passes around: the argument bundle of
  \<^verbatim>\<open>request\<close>, the values a request resolves or rejects with, the gallery items and
  the selection held in \<^verbatim>\<open>fullscreenImage\<close>. An object is the list of its fields in
  the order of the object literal. Numbers are the integers the source uses (item ids and
  indices). Functions are not data values: the provider, the only object of the program
  that carries functions, has a type of its own below.
\<close>

datatype jsval =
    JUndefined
  | JNull
  | JBool bool
  | JNum int
  | JStr string
  | JArr "jsval list"
  | JObj "(string \<times> jsval) list"

text \<open>JavaScript's ToBoolean, as \<^verbatim>\<open>!x\<close>, \<^verbatim>\<open>x && y\<close> and \<^verbatim>\<open>if (x)\<close> apply it.\<close>

fun truthy :: "jsval \<Rightarrow> bool" where
  "truthy JUndefined = False"
| "truthy JNull = False"
| "truthy (JBool b) = b"
| "truthy (JNum n) = (n \<noteq> 0)"
| "truthy (JStr s) = (s \<noteq> [])"
| "truthy (JArr xs) = True"
| "truthy (JObj fs) = True"

text \<open>
  \<^verbatim>\<open>TypeError\<close> values, as the engine throws them. A thrown value is any value, so
  errors are values of \<^typ>\<open>jsval\<close> and a computation that may throw returns
  \<open>jsval + 'a\<close>, \<open>Inl\<close> carrying what was thrown.
\<close>

definition TypeError :: "string \<Rightarrow> jsval" where
  "TypeError msg = JObj [(''name'', JStr ''TypeError''), (''message'', JStr msg)]"

text \<open>
  The property read \<^verbatim>\<open>v.k\<close> for the property names the program reads on data
  values (\<^verbatim>\<open>method\<close>, \<^verbatim>\<open>request\<close>, \<^verbatim>\<open>id\<close>, \<^verbatim>\<open>image\<close>, \<^verbatim>\<open>caption\<close>): none of
  them is defined on the prototype of a primitive or of an array, so only an object can
  hold one, and reading a missing property gives \<^verbatim>\<open>undefined\<close>. On \<^verbatim>\<open>undefined\<close> and
  \<^verbatim>\<open>null\<close> a property read throws.
\<close>

fun read_prop :: "jsval \<Rightarrow> string \<Rightarrow> jsval" where
  "read_prop (JObj fs) k = (case map_of fs k of Some v \<Rightarrow> v | None \<Rightarrow> JUndefined)"
| "read_prop v k = JUndefined"

fun get_prop :: "jsval \<Rightarrow> string \<Rightarrow> jsval + jsval" where
  "get_prop JUndefined k = Inl (TypeError (''Cannot read properties of undefined (reading '' @ k @ '')''))"
| "get_prop JNull k = Inl (TypeError (''Cannot read properties of null (reading '' @ k @ '')''))"
| "get_prop v k = Inr (read_prop v k)"

section \<open>The console\<close>

datatype level = Warn | Info

text \<open>
  One console call: its level, its message and the value logged after the message
  (\<^verbatim>\<open>undefined\<close> for a call with the message alone). The console is the list of the
  calls made so far, oldest first.
\<close>

type_synonym log_entry = "level \<times> string \<times> jsval"
type_synonym console = "log_entry list"

definition console_warn :: "string \<Rightarrow> jsval \<Rightarrow> console \<Rightarrow> console" where
  "console_warn msg v c = c @ [(Warn, msg, v)]"

definition console_info :: "string \<Rightarrow> console \<Rightarrow> console" where
  "console_info msg c = c @ [(Info, msg, JUndefined)]"

section \<open>The provider and the window\<close>

text \<open>
  A request operation is an \<^verbatim>\<open>async\<close> function of one argument bundle. Its outcome is
  the settled promise: \<open>Inr v\<close> when it resolves with \<open>v\<close>, \<open>Inl e\<close> when it throws or
  rejects with \<open>e\<close> (\<^verbatim>\<open>await\<close> inside \<^verbatim>\<open>try\<close> catches both alike). It may write to the
  console, so it takes the console and returns it.
\<close>

type_synonym request_fn = "jsval \<Rightarrow> console \<Rightarrow> (jsval + jsval) \<times> console"
type_synonym listener_fn = "jsval list \<Rightarrow> jsval"

text \<open>
  An object in the slot \<^verbatim>\<open>window.ethereum\<close> that carries functions: the stub of the
  source, or a provider injected by an extension. \<open>request = None\<close> is a provider with
  no \<^verbatim>\<open>request\<close> property. The slot and the fields of a provider are ordinary
  writable properties, and \<^verbatim>\<open>console.warn\<close> and \<^verbatim>\<open>console.info\<close> are the
  console's own, which do not throw.
\<close>

record provider =
  isMetaMask :: jsval
  request :: "request_fn option"
  on :: "listener_fn option"
  removeListener :: "listener_fn option"

text \<open>
  What the slot \<^verbatim>\<open>window.ethereum\<close> holds: a data value (\<^verbatim>\<open>undefined\<close> when nothing
  was injected) or a provider.
\<close>

datatype eth_slot = EthValue jsval | EthProvider provider

record window =
  ethereum :: eth_slot

text \<open>
  The environment of the module: \<open>win = None\<close> where \<^verbatim>\<open>typeof window\<close> is
  \<^verbatim>\<open>"undefined"\<close> (no browser), and the console.
\<close>

record env =
  win :: "window option"
  console :: console

section \<open>The shim: \<^verbatim>\<open>setupMetaMaskStub\<close>\<close>

text \<open>
  The test \<^verbatim>\<open>args && args.method === "eth_requestAccounts"\<close>, with the short circuit
  and the property read that could throw written out. Strict equality with a string
  literal holds for that string primitive only.
\<close>

definition asks_accounts :: "jsval \<Rightarrow> jsval + bool" where
  "asks_accounts args =
     (if truthy args then
        (case get_prop args ''method'' of
           Inl err \<Rightarrow> Inl err
         | Inr m \<Rightarrow> Inr (m = JStr ''eth_requestAccounts''))
      else Inr False)"

text \<open>The \<^verbatim>\<open>request\<close> of the stub (lines 21 to 27).\<close>

definition stub_request :: request_fn where
  "stub_request args c =
     (let c1 = console_warn ''[meta-stub] window.ethereum.request called but no MetaMask:'' args c
      in case asks_accounts args of
           Inl err \<Rightarrow> (Inl err, c1)
         | Inr True \<Rightarrow> (Inr (JArr []), c1)
         | Inr False \<Rightarrow> (Inr JNull, c1))"

text \<open>The object literal of lines 18 to 31.\<close>

definition stub :: provider where
  "stub = \<lparr> isMetaMask = JBool False,
            request = Some stub_request,
            on = Some (\<lambda>_. JUndefined),
            removeListener = Some (\<lambda>_. JUndefined) \<rparr>"

text \<open>The wrapper of lines 38 to 47 around \<open>originalRequest\<close>.\<close>

definition wrapped_request :: "request_fn \<Rightarrow> request_fn" where
  "wrapped_request originalRequest args c =
     (case originalRequest args c of
        (Inr v, c1) \<Rightarrow> (Inr v, c1)
      | (Inl err, c1) \<Rightarrow>
          (let c2 = console_warn ''[meta-stub] Caught error from ethereum.request:'' err c1
           in case asks_accounts args of
                Inl err2 \<Rightarrow> (Inl err2, c2)
              | Inr True \<Rightarrow> (Inr (JArr []), c2)
              | Inr False \<Rightarrow> (Inr JNull, c2)))"

text \<open>\<^verbatim>\<open>!window.ethereum\<close> and \<^verbatim>\<open>window.ethereum.request\<close> as conditions.\<close>

fun slot_truthy :: "eth_slot \<Rightarrow> bool" where
  "slot_truthy (EthValue v) = truthy v"
| "slot_truthy (EthProvider p) = True"

text \<open>
  The body of the \<^verbatim>\<open>try\<close> (lines 16 to 48): \<open>Inl err\<close> with the environment reached
  so far when a statement throws. In the second branch the slot is truthy. A data value
  there with a truthy \<^verbatim>\<open>request\<close> has no callable \<^verbatim>\<open>bind\<close>, so
  \<^verbatim>\<open>window.ethereum.request.bind(window.ethereum)\<close> throws a \<^verbatim>\<open>TypeError\<close>.
\<close>

definition install :: "window \<Rightarrow> console \<Rightarrow> (jsval + unit) \<times> window \<times> console" where
  "install w c =
     (if \<not> slot_truthy (ethereum w) then
        (Inr (), w\<lparr>ethereum := EthProvider stub\<rparr>,
         console_info ''[meta-stub] Installed safe window.ethereum stub (no MetaMask detected).'' c)
      else
        (case ethereum w of
           EthValue v \<Rightarrow>
             (if truthy (read_prop v ''request'')
              then (Inl (TypeError ''window.ethereum.request.bind is not a function''), w, c)
              else (Inr (), w, c))
         | EthProvider p \<Rightarrow>
             (case request p of
                Some originalRequest \<Rightarrow>
                  (Inr (), w\<lparr>ethereum := EthProvider (p\<lparr>request := Some (wrapped_request originalRequest)\<rparr>)\<rparr>, c)
              | None \<Rightarrow> (Inr (), w, c))))"

text \<open>
  \<^verbatim>\<open>setupMetaMaskStub\<close> (lines 12 to 53): the early return without a window, the
  \<^verbatim>\<open>try\<close> and its \<^verbatim>\<open>catch\<close>. The result says how the call ends: \<open>Inr ()\<close> is a normal
  return, \<open>Inl err\<close> an exception that reaches the caller.
\<close>

definition setupMetaMaskStub :: "env \<Rightarrow> (jsval + unit) \<times> env" where
  "setupMetaMaskStub e =
     (case win e of
        None \<Rightarrow> (Inr (), e)
      | Some w \<Rightarrow>
          (case install w (console e) of
             (Inr u, w1, c1) \<Rightarrow> (Inr (), \<lparr> win = Some w1, console = c1 \<rparr>)
           | (Inl err, w1, c1) \<Rightarrow>
               (Inr (), \<lparr> win = Some w1,
                          console = console_warn ''[meta-stub] Failed to setup MetaMask stub:'' err c1 \<rparr>)))"


section \<open>The shim in an environment that may fail\<close>









section \<open>Strings: template literals and \<^verbatim>\<open>encodeURIComponent\<close>\<close>

text \<open>
  A string is the list of its UTF-8 bytes. \<open>show_nat\<close> is the decimal numeral that a
  template literal writes for a non-negative integer; \<open>digit_char\<close> is applied to
  digits below ten only, \<open>hex_digit\<close> to digits below sixteen only.
\<close>

definition digit_char :: "nat \<Rightarrow> char" where
  "digit_char d = ''0123456789'' ! d"

fun show_nat :: "nat \<Rightarrow> string" where
  "show_nat n = (if n < 10 then [digit_char n] else show_nat (n div 10) @ [digit_char (n mod 10)])"

declare show_nat.simps [simp del]

definition show_int :: "int \<Rightarrow> string" where
  "show_int i = (if i < 0 then CHR ''-'' # show_nat (nat (- i)) else show_nat (nat i))"

definition join_comma :: "string list \<Rightarrow> string" where
  "join_comma xs = concat (case xs of [] \<Rightarrow> [] | y # ys \<Rightarrow> y # map (\<lambda>z. CHR '','' # z) ys)"

text \<open>
  JavaScript's ToString, which \<^verbatim>\<open>${...}\<close> in a template literal and an attribute such
  as \<^verbatim>\<open>src={item.image}\<close> apply to a value.
\<close>

fun to_str :: "jsval \<Rightarrow> string" where
  "to_str JUndefined = ''undefined''"
| "to_str JNull = ''null''"
| "to_str (JBool b) = (if b then ''true'' else ''false'')"
| "to_str (JNum n) = show_int n"
| "to_str (JStr s) = s"
| "to_str (JArr xs) =
     join_comma (map (\<lambda>x. if x = JUndefined \<or> x = JNull then [] else to_str x) xs)"
| "to_str (JObj fs) = ''[object Object]''"

text \<open>
  \<^verbatim>\<open>encodeURIComponent\<close>: the unreserved characters stay, every other byte of the
  UTF-8 encoding becomes \<^verbatim>\<open>%XX\<close> with upper-case hexadecimal digits.
\<close>

definition unreserved :: "char \<Rightarrow> bool" where
  "unreserved ch =
     List.member ''ABCDEFGHIJKLMNOPQRSTUVWXYZabcdefghijklmnopqrstuvwxyz0123456789-_.!~*'()'' ch"

definition hex_digit :: "nat \<Rightarrow> char" where
  "hex_digit d = ''0123456789ABCDEF'' ! d"

definition encode_char :: "char \<Rightarrow> string" where
  "encode_char ch =
     (if unreserved ch then [ch]
      else [CHR ''%'', hex_digit (of_char ch div 16), hex_digit (of_char ch mod 16)])"

definition encodeURIComponent :: "string \<Rightarrow> string" where
  "encodeURIComponent s = concat (map encode_char s)"

section \<open>The gallery: tiles\<close>

text \<open>
  The placeholder graphics of the \<^verbatim>\<open>onError\<close> handlers. The source writes the
  600 by 800 template at four places (lines 87, 195, 229 and 267), which differ in the
  text of the \<^verbatim>\<open><text>\<close> element only, and a 100 by 100 template for the tools
  (line 314).
\<close>

definition placeholder_svg :: "string \<Rightarrow> string" where
  "placeholder_svg label =
     ''<svg xmlns='http://www.w3.org/2000/svg' viewBox='0 0 600 800'><rect width='600' height='800' fill='%23262224'/><text x='50%' y='50%' dominant-baseline='middle' text-anchor='middle' fill='white' fill-opacity='0.5' font-family='Inter, Helvetica Neue, Arial, sans-serif' font-size='28'>''
     @ label @ ''</text></svg>''"

definition tool_svg :: "string \<Rightarrow> string" where
  "tool_svg label =
     ''<svg xmlns='http://www.w3.org/2000/svg' viewBox='0 0 100 100'><rect width='100' height='100' fill='%23262224'/><text x='50%' y='50%' dominant-baseline='middle' text-anchor='middle' fill='white' fill-opacity='0.5' font-family='Inter, Helvetica Neue, Arial, sans-serif' font-size='12'>''
     @ label @ ''</text></svg>''"

definition data_uri :: "string \<Rightarrow> string" where
  "data_uri svg = ''data:image/svg+xml;utf8,'' @ encodeURIComponent svg"

text \<open>
  A rendered tile: the \<^verbatim>\<open>src\<close> and \<^verbatim>\<open>alt\<close> of its image, the value its
  \<^verbatim>\<open>onClick\<close> passes to \<^verbatim>\<open>setFullscreenImage\<close>, and the text and the data URI that
  the \<^verbatim>\<open>onError\<close> of its image assigns to \<^verbatim>\<open>e.target.src\<close>.
\<close>

record tile =
  src :: string
  alt :: string
  on_click :: jsval
  error_text :: string
  on_error_src :: string

text \<open>The catalogue of lines 69 to 73.\<close>

definition items :: "jsval list" where
  "items =
     [JObj [(''id'', JNum 1), (''caption'', JStr ''porsche 991 poster''), (''image'', JStr ''images/porsche.png'')],
      JObj [(''id'', JNum 2), (''caption'', JStr ''porsche 991 poster''), (''image'', JStr ''images/porsche 2.jpg'')]]"

text \<open>
  The component \<^verbatim>\<open>Placeholder\<close> (lines 75 to 99): its click handler passes the
  item it was given, itself.
\<close>

definition Placeholder :: "jsval \<Rightarrow> tile" where
  "Placeholder item =
     \<lparr> src = to_str (read_prop item ''image''),
       alt = to_str (read_prop item ''caption''),
       on_click = item,
       error_text = ''Image '' @ to_str (read_prop item ''id''),
       on_error_src = data_uri (placeholder_svg (''Image '' @ to_str (read_prop item ''id''))) \<rparr>"

text \<open>The four groups written inline (lines 182 to 208, 216 to 242, 250 to 280, 298 to 327).\<close>

definition cat_tile :: "nat \<times> string \<Rightarrow> tile" where
  "cat_tile = (\<lambda>(idx, img).
     \<lparr> src = ''images/Cat in a Box/'' @ img,
       alt = ''Cat in a Box '' @ show_nat (idx + 1),
       on_click = JObj [(''image'', JStr (''images/Cat in a Box/'' @ img)),
                        (''caption'', JStr (''Cat in a Box - Design '' @ show_nat (idx + 1)))],
       error_text = ''Cat in a Box'',
       on_error_src = data_uri (placeholder_svg ''Cat in a Box'') \<rparr>)"

definition chai_tile :: "nat \<times> string \<Rightarrow> tile" where
  "chai_tile = (\<lambda>(idx, img).
     \<lparr> src = ''images/Chai Mahal/'' @ img,
       alt = ''Chai Mahal '' @ show_nat (idx + 1),
       on_click = JObj [(''image'', JStr (''images/Chai Mahal/'' @ img)),
                        (''caption'', JStr (''Chai Mahal - Design '' @ show_nat (idx + 1)))],
       error_text = ''Chai Mahal'',
       on_error_src = data_uri (placeholder_svg ''Chai Mahal'') \<rparr>)"

definition harvest_tile :: "nat \<times> string \<Rightarrow> tile" where
  "harvest_tile = (\<lambda>(idx, img).
     \<lparr> src = ''images/Harvest Connect/'' @ img,
       alt = ''Harvest Connect '' @ show_nat (idx + 1),
       on_click = JObj [(''image'', JStr (''images/Harvest Connect/'' @ img)),
                        (''caption'', JStr (''Harvest Connect - Screen '' @ show_nat (idx + 1)))],
       error_text = ''Harvest Connect'',
       on_error_src = data_uri (placeholder_svg ''Harvest Connect'') \<rparr>)"

definition tools_tile :: "nat \<times> string \<Rightarrow> tile" where
  "tools_tile = (\<lambda>(idx, img).
     \<lparr> src = ''images/tools/'' @ img,
       alt = ''Tool '' @ show_nat (idx + 1),
       on_click = JObj [(''image'', JStr (''images/tools/'' @ img)),
                        (''caption'', JStr (''tool '' @ show_nat (idx + 1)))],
       error_text = ''Tool'',
       on_error_src = data_uri (tool_svg ''Tool'') \<rparr>)"

text \<open>\<^verbatim>\<open>xs.map((img, idx) => ...)\<close>: the callback gets each element with its index.\<close>

definition map_idx :: "(nat \<times> 'a \<Rightarrow> 'b) \<Rightarrow> 'a list \<Rightarrow> 'b list" where
  "map_idx f xs = map f (zip [0 ..< length xs] xs)"

definition items_tiles :: "tile list" where
  "items_tiles = map_idx (\<lambda>(idx, item). Placeholder item) items"

definition cat_tiles :: "tile list" where
  "cat_tiles = map_idx cat_tile [''1.png'', ''2.png'', ''3.png'', ''4.png'', ''5.png'']"

definition chai_tiles :: "tile list" where
  "chai_tiles = map_idx chai_tile
     [''w1.png'', ''w2.png'', ''w3.png'', ''w4.png'', ''w5.png'', ''w6.png'', ''w7.png'']"

definition harvest_tiles :: "tile list" where
  "harvest_tiles = map_idx harvest_tile
     [''Screenshot 2025-08-15 151613.png'',
      ''Screenshot 2025-08-15 151629.png'',
      ''Screenshot 2025-08-15 151703.png'']"

definition tools_tiles :: "tile list" where
  "tools_tiles = map_idx tools_tile [''download  (2).png'', ''download (3).jpg'']"

text \<open>All tiles of the page, in document order.\<close>

definition tiles :: "tile list" where
  "tiles = items_tiles @ cat_tiles @ chai_tiles @ harvest_tiles @ tools_tiles"

section \<open>The gallery: state and events\<close>

text \<open>
  The state of the page: the cell of \<^verbatim>\<open>useState(null)\<close> (line 67) and the current
  \<^verbatim>\<open>src\<close> attribute of the image element of each tile, in document order.
\<close>

record app_state =
  fullscreenImage :: jsval
  img_src :: "string list"

definition initial_state :: app_state where
  "initial_state = \<lparr> fullscreenImage = JNull, img_src = map src tiles \<rparr>"

definition setFullscreenImage :: "jsval \<Rightarrow> app_state \<Rightarrow> app_state" where
  "setFullscreenImage v s = s\<lparr>fullscreenImage := v\<rparr>"

text \<open>
  The elements of the overlay (lines 348 to 377): the backdrop \<^verbatim>\<open>div\<close>, the frame
  \<^verbatim>\<open>div\<close> inside it, and inside the frame the close button, the enlarged image and
  the caption. \<open>bubble_path r\<close> lists the elements a click on \<open>r\<close> visits, from the
  target outwards; no element outside the backdrop has a click handler.
\<close>

datatype region = Backdrop | Frame | CloseButton | EnlargedImage | CaptionText

fun bubble_path :: "region \<Rightarrow> region list" where
  "bubble_path Backdrop = [Backdrop]"
| "bubble_path Frame = [Frame, Backdrop]"
| "bubble_path CloseButton = [CloseButton, Frame, Backdrop]"
| "bubble_path EnlargedImage = [EnlargedImage, Frame, Backdrop]"
| "bubble_path CaptionText = [CaptionText, Frame, Backdrop]"

text \<open>
  The \<^verbatim>\<open>onClick\<close> of each element: the new state and whether the handler called
  \<^verbatim>\<open>e.stopPropagation()\<close>.
\<close>

fun on_click_handler :: "region \<Rightarrow> (app_state \<Rightarrow> app_state \<times> bool) option" where
  "on_click_handler Backdrop = Some (\<lambda>s. (setFullscreenImage JNull s, False))"
| "on_click_handler CloseButton = Some (\<lambda>s. (setFullscreenImage JNull s, False))"
| "on_click_handler EnlargedImage = Some (\<lambda>s. (s, True))"
| "on_click_handler Frame = None"
| "on_click_handler CaptionText = None"

fun bubble :: "region list \<Rightarrow> app_state \<Rightarrow> app_state" where
  "bubble [] s = s"
| "bubble (r # rs) s =
     (case on_click_handler r of
        None \<Rightarrow> bubble rs s
      | Some h \<Rightarrow> (case h s of (s1, stopped) \<Rightarrow> if stopped then s1 else bubble rs s1))"

text \<open>
  The events of the page: a click on the tile at a position, a click on an element of the
  overlay, and the load error of the image of the tile at a position.
\<close>

datatype event = TileClick nat | OverlayClick region | ImageError nat

text \<open>
  A change of the cell makes React render \<^verbatim>\<open>App\<close> again. \<^verbatim>\<open>Placeholder\<close> is defined
  inside \<^verbatim>\<open>App\<close> (line 75), so each render makes a new component of it: the tiles of
  the catalogue are unmounted and mounted anew, and their image elements start again with
  \<^verbatim>\<open>src\<close> set to \<^verbatim>\<open>item.image\<close>. The image elements of the inline tiles stay, and
  since their \<^verbatim>\<open>src\<close> property has not changed React leaves the attribute as it is.
\<close>

definition rerender :: "app_state \<Rightarrow> app_state" where
  "rerender s =
     s\<lparr>img_src :=
         map_idx (\<lambda>(k, cur). if k < length items_tiles then src (items_tiles ! k) else cur)
           (img_src s)\<rparr>"

text \<open>
  One event. A position that is not a tile's has no element, and the overlay has elements
  only while \<^verbatim>\<open>fullscreenImage\<close> is truthy (line 348): an event on what is not there
  changes nothing. A tile's handler sets the cell whatever it held, to an object that the
  cell does not hold yet (a new object literal, or an item of the catalogue of the latest
  render), so a render follows. A click on the overlay is followed by a render when its
  handlers changed the cell. The \<^verbatim>\<open>onError\<close> of an image sets no state.
\<close>

fun step :: "app_state \<Rightarrow> event \<Rightarrow> app_state" where
  "step s (TileClick i) =
     (if i < length tiles then rerender (setFullscreenImage (on_click (tiles ! i)) s) else s)"
| "step s (OverlayClick r) =
     (if truthy (fullscreenImage s) then
        (let s1 = bubble (bubble_path r) s
         in if fullscreenImage s1 = fullscreenImage s then s1 else rerender s1)
      else s)"
| "step s (ImageError i) =
     (if i < length tiles \<and> i < length (img_src s)
      then s\<lparr>img_src := (img_src s)[i := on_error_src (tiles ! i)]\<rparr> else s)"

declare step.simps [simp del]

definition run :: "app_state \<Rightarrow> event list \<Rightarrow> app_state" where
  "run s evs = foldl step s evs"

text \<open>
  The selection, read off the cell as line 348 reads it: the overlay is rendered exactly
  when \<^verbatim>\<open>fullscreenImage\<close> is truthy, and then it displays that value (\<open>Viewing\<close>);
  otherwise nothing is selected (\<open>Idle\<close>).
\<close>

datatype selection = Idle | Viewing jsval

definition selection :: "app_state \<Rightarrow> selection" where
  "selection s = (if truthy (fullscreenImage s) then Viewing (fullscreenImage s) else Idle)"

text \<open>The names of the fields of an object, in their order (\<^verbatim>\<open>Object.keys\<close>).\<close>

fun field_names :: "jsval \<Rightarrow> string list" where
  "field_names (JObj fs) = map fst fs"
| "field_names v = []"

section \<open>The notions of the specification\<close>



text \<open>
  The specification's "provider with a request operation": an operation is a function,
  which only a provider object can hold.
\<close>

fun has_request_operation :: "eth_slot \<Rightarrow> bool" where
  "has_request_operation (EthValue v) = False"
| "has_request_operation (EthProvider p) = (request p \<noteq> None)"

section \<open>Properties\<close>




lemma wrapped_request_passes:
  "originalRequest args c = (Inr v, c1) \<Longrightarrow> wrapped_request originalRequest args c = (Inr v, c1)"
  by (simp add: wrapped_request_def)













text \<open>
  Claim C10. Where the slot holds something truthy that has no request operation, the
  setup returns normally and leaves the window, and with it the slot and every field of
  the provider, as it was: no stub, no wrapper. For a provider object without a
  \<^verbatim>\<open>request\<close> property the whole environment, console included, is unchanged.
\<close>
theorem provider_without_request_unchanged:
  assumes "win e = Some w" and "slot_truthy (ethereum w)" and "\<not> has_request_operation (ethereum w)"
  shows "fst (setupMetaMaskStub e) = Inr ()
       \<and> win (snd (setupMetaMaskStub e)) = Some w
       \<and> (\<forall>p. ethereum w = EthProvider p \<longrightarrow> setupMetaMaskStub e = (Inr (), e))"
  using assms
  by (cases "ethereum w") (auto simp: setupMetaMaskStub_def install_def console_warn_def)

theorem provider_without_request_unchanged_witness:
  "slot_truthy (ethereum \<lparr> ethereum = EthProvider \<lparr> isMetaMask = JBool True, request = None, on = Some (\<lambda>_. JNull), removeListener = None \<rparr> \<rparr>)
   \<and> \<not> has_request_operation (ethereum \<lparr> ethereum = EthProvider \<lparr> isMetaMask = JBool True, request = None, on = Some (\<lambda>_. JNull), removeListener = None \<rparr> \<rparr>)
   \<and> setupMetaMaskStub \<lparr> win = Some \<lparr> ethereum = EthProvider \<lparr> isMetaMask = JBool True, request = None, on = Some (\<lambda>_. JNull), removeListener = None \<rparr> \<rparr>, console = [] \<rparr>
      = (Inr (), \<lparr> win = Some \<lparr> ethereum = EthProvider \<lparr> isMetaMask = JBool True, request = None, on = Some (\<lambda>_. JNull), removeListener = None \<rparr> \<rparr>, console = [] \<rparr>)"
  using provider_without_request_unchanged
    [of "\<lparr> win = Some \<lparr> ethereum = EthProvider \<lparr> isMetaMask = JBool True, request = None, on = Some (\<lambda>_. JNull), removeListener = None \<rparr> \<rparr>, console = [] \<rparr>"
        "\<lparr> ethereum = EthProvider \<lparr> isMetaMask = JBool True, request = None, on = Some (\<lambda>_. JNull), removeListener = None \<rparr> \<rparr>"]
  by simp

lemma show_nat_digit: "n < 10 \<Longrightarrow> show_nat n = [digit_char n]"
  by (simp add: show_nat.simps)

lemmas tiles_unfold =
  tiles_def items_tiles_def cat_tiles_def chai_tiles_def harvest_tiles_def tools_tiles_def
  map_idx_def items_def Placeholder_def cat_tile_def chai_tile_def harvest_tile_def
  tools_tile_def show_nat_digit digit_char_def show_int_def

lemma length_tiles: "length tiles = 19" by (simp add: tiles_unfold)

lemma on_click_table:
  "map on_click tiles =
    [JObj [(''id'', JNum 1), (''caption'', JStr ''porsche 991 poster''), (''image'', JStr ''images/porsche.png'')],
     JObj [(''id'', JNum 2), (''caption'', JStr ''porsche 991 poster''), (''image'', JStr ''images/porsche 2.jpg'')],
     JObj [(''image'', JStr ''images/Cat in a Box/1.png''), (''caption'', JStr ''Cat in a Box - Design 1'')],
     JObj [(''image'', JStr ''images/Cat in a Box/2.png''), (''caption'', JStr ''Cat in a Box - Design 2'')],
     JObj [(''image'', JStr ''images/Cat in a Box/3.png''), (''caption'', JStr ''Cat in a Box - Design 3'')],
     JObj [(''image'', JStr ''images/Cat in a Box/4.png''), (''caption'', JStr ''Cat in a Box - Design 4'')],
     JObj [(''image'', JStr ''images/Cat in a Box/5.png''), (''caption'', JStr ''Cat in a Box - Design 5'')],
     JObj [(''image'', JStr ''images/Chai Mahal/w1.png''), (''caption'', JStr ''Chai Mahal - Design 1'')],
     JObj [(''image'', JStr ''images/Chai Mahal/w2.png''), (''caption'', JStr ''Chai Mahal - Design 2'')],
     JObj [(''image'', JStr ''images/Chai Mahal/w3.png''), (''caption'', JStr ''Chai Mahal - Design 3'')],
     JObj [(''image'', JStr ''images/Chai Mahal/w4.png''), (''caption'', JStr ''Chai Mahal - Design 4'')],
     JObj [(''image'', JStr ''images/Chai Mahal/w5.png''), (''caption'', JStr ''Chai Mahal - Design 5'')],
     JObj [(''image'', JStr ''images/Chai Mahal/w6.png''), (''caption'', JStr ''Chai Mahal - Design 6'')],
     JObj [(''image'', JStr ''images/Chai Mahal/w7.png''), (''caption'', JStr ''Chai Mahal - Design 7'')],
     JObj [(''image'', JStr ''images/Harvest Connect/Screenshot 2025-08-15 151613.png''), (''caption'', JStr ''Harvest Connect - Screen 1'')],
     JObj [(''image'', JStr ''images/Harvest Connect/Screenshot 2025-08-15 151629.png''), (''caption'', JStr ''Harvest Connect - Screen 2'')],
     JObj [(''image'', JStr ''images/Harvest Connect/Screenshot 2025-08-15 151703.png''), (''caption'', JStr ''Harvest Connect - Screen 3'')],
     JObj [(''image'', JStr ''images/tools/download  (2).png''), (''caption'', JStr ''tool 1'')],
     JObj [(''image'', JStr ''images/tools/download (3).jpg''), (''caption'', JStr ''tool 2'')]]"
  by (simp add: tiles_unfold)

lemma images_distinct: "distinct (map (\<lambda>t. read_prop (on_click t) ''image'') tiles)"
  by (simp add: tiles_unfold)

lemma on_click_truthy: "list_all (\<lambda>t. truthy (on_click t)) tiles"
  by (simp add: tiles_unfold)


lemma tiles_groups: "set tiles = set items_tiles \<union> set (cat_tiles @ chai_tiles @ harvest_tiles @ tools_tiles)"
  by (simp add: tiles_def Un_assoc)

lemma items_tiles_payload:
  "\<forall>t \<in> set items_tiles. on_click t \<in> set items
      \<and> field_names (on_click t) = [''id'', ''caption'', ''image'']
      \<and> alt t = to_str (read_prop (on_click t) ''caption'')
      \<and> error_text t = ''Image '' @ to_str (read_prop (on_click t) ''id'')
      \<and> on_error_src t = data_uri (placeholder_svg (error_text t))"
  by (simp add: tiles_unfold)

lemma inline_tiles_payload:
  "\<forall>t \<in> set (cat_tiles @ chai_tiles @ harvest_tiles @ tools_tiles).
      field_names (on_click t) = [''image'', ''caption'']"
  by (simp add: tiles_unfold)

lemma payload_strings:
  "\<forall>t \<in> set tiles. \<exists>p c. read_prop (on_click t) ''image'' = JStr p \<and> p = src t
       \<and> read_prop (on_click t) ''caption'' = JStr c"
  by (simp add: tiles_unfold)

lemma group_error_text:
  "(\<forall>t \<in> set cat_tiles. error_text t = ''Cat in a Box'' \<and> on_error_src t = data_uri (placeholder_svg (error_text t)))
 \<and> (\<forall>t \<in> set chai_tiles. error_text t = ''Chai Mahal'' \<and> on_error_src t = data_uri (placeholder_svg (error_text t)))
 \<and> (\<forall>t \<in> set harvest_tiles. error_text t = ''Harvest Connect'' \<and> on_error_src t = data_uri (placeholder_svg (error_text t)))
 \<and> (\<forall>t \<in> set tools_tiles. error_text t = ''Tool'' \<and> on_error_src t = data_uri (tool_svg (error_text t)))"
  by (simp add: tiles_unfold)


lemma nth_tiles_mem: "i < length tiles \<Longrightarrow> tiles ! i \<in> set tiles"
  by simp

lemma on_click_truthy_nth: "i < length tiles \<Longrightarrow> truthy (on_click (tiles ! i))"
  using on_click_truthy by (simp add: list_all_length)

lemma image_is_src_nth:
  "i < length tiles \<Longrightarrow> read_prop (on_click (tiles ! i)) ''image'' = JStr (src (tiles ! i))"
  using payload_strings nth_tiles_mem by blast

lemma images_differ:
  assumes "i < length tiles" and "j < length tiles" and "j \<noteq> i"
  shows "read_prop (on_click (tiles ! j)) ''image'' \<noteq> read_prop (on_click (tiles ! i)) ''image''"
proof -
  let ?xs = "map (\<lambda>t. read_prop (on_click t) ''image'') tiles"
  have "?xs ! j \<noteq> ?xs ! i"
    using nth_eq_iff_index_eq [OF images_distinct, of j i] assms by simp
  with assms show ?thesis by simp
qed

lemma payloads_differ:
  assumes "i < length tiles" and "j < length tiles" and "j \<noteq> i"
  shows "on_click (tiles ! j) \<noteq> on_click (tiles ! i)"
  using images_differ [OF assms] by auto

lemma length_map_idx: "length (map_idx f xs) = length xs"
  by (simp add: map_idx_def)

lemma nth_map_idx: "k < length xs \<Longrightarrow> map_idx f xs ! k = f (k, xs ! k)"
  by (simp add: map_idx_def)

lemma rerender_cell: "fullscreenImage (rerender s) = fullscreenImage s"
  by (simp add: rerender_def)

lemma rerender_length: "length (img_src (rerender s)) = length (img_src s)"
  by (simp add: rerender_def length_map_idx)

lemma rerender_set:
  "rerender (setFullscreenImage v s) = setFullscreenImage v (rerender s)"
  by (simp add: rerender_def setFullscreenImage_def)

lemma rerender_twice: "rerender (rerender s) = rerender s"
proof -
  let ?f = "\<lambda>(k, cur). if k < length items_tiles then src (items_tiles ! k) else cur"
  have "map_idx ?f (map_idx ?f (img_src s)) = map_idx ?f (img_src s)"
    by (rule nth_equalityI) (simp_all add: length_map_idx nth_map_idx)
  then show ?thesis
    by (simp add: rerender_def)
qed

lemma set_twice:
  "setFullscreenImage v (setFullscreenImage u s) = setFullscreenImage v s"
  by (simp add: setFullscreenImage_def)

lemma selection_tile_click:
  "i < length tiles \<Longrightarrow> selection (step s (TileClick i)) = Viewing (on_click (tiles ! i))"
  by (simp add: step.simps selection_def rerender_cell setFullscreenImage_def on_click_truthy_nth)

lemma selection_Idle_iff: "selection s = Idle \<longleftrightarrow> \<not> truthy (fullscreenImage s)"
  by (simp add: selection_def)

lemma selection_Viewing_iff:
  "selection s = Viewing v \<longleftrightarrow> truthy (fullscreenImage s) \<and> fullscreenImage s = v"
  by (auto simp: selection_def)

lemma step_dismiss_idle:
  "r \<noteq> EnlargedImage \<Longrightarrow> selection (step s (OverlayClick r)) = Idle"
  by (cases "truthy (fullscreenImage s)"; cases r)
    (auto simp: step.simps Let_def selection_def rerender_cell setFullscreenImage_def)

lemma run_snoc: "run s (evs @ [ev]) = step (run s evs) ev"
  by (simp add: run_def)

text \<open>
  Claim C3. A click on any tile while the selection is \<open>Idle\<close> gives the selection
  \<open>Viewing item\<close>, where \<open>item\<close> is the value that this tile's click handler declares;
  the image path of \<open>item\<close> is the \<^verbatim>\<open>src\<close> that this tile declares for its image;
  every other tile declares a different value with a different image path, so nothing of
  another tile is in the selection.
\<close>

theorem tile_click_from_idle:
  assumes "i < length tiles" and "selection s = Idle"
  shows "selection (step s (TileClick i)) = Viewing (on_click (tiles ! i))
       \<and> fullscreenImage (step s (TileClick i)) = on_click (tiles ! i)
       \<and> read_prop (on_click (tiles ! i)) ''image'' = JStr (src (tiles ! i))
       \<and> (\<forall>j < length tiles. j \<noteq> i \<longrightarrow>
             on_click (tiles ! j) \<noteq> on_click (tiles ! i)
           \<and> read_prop (on_click (tiles ! j)) ''image'' \<noteq> read_prop (on_click (tiles ! i)) ''image'')"
proof -
  have a: "selection (step s (TileClick i)) = Viewing (on_click (tiles ! i))"
    using assms(1) by (rule selection_tile_click)
  then have a2: "fullscreenImage (step s (TileClick i)) = on_click (tiles ! i)"
    by (simp add: selection_Viewing_iff)
  have b: "read_prop (on_click (tiles ! i)) ''image'' = JStr (src (tiles ! i))"
    using assms(1) by (rule image_is_src_nth)
  have c: "\<forall>j < length tiles. j \<noteq> i \<longrightarrow>
             on_click (tiles ! j) \<noteq> on_click (tiles ! i)
           \<and> read_prop (on_click (tiles ! j)) ''image'' \<noteq> read_prop (on_click (tiles ! i)) ''image''"
    using assms(1) images_differ payloads_differ by blast
  from a a2 b c show ?thesis by blast
qed

text \<open>
  Claim C4. While the selection is \<open>Viewing item\<close>, a click on the enlarged image
  leaves the state as it is, so the selection stays \<open>Viewing item\<close>: its handler stops
  the click on its way to the backdrop. A click on the close control gives the selection
  \<open>Idle\<close>, and so does a click on the backdrop, whether it hits the backdrop element
  itself or the frame that covers it and reaches the backdrop's handler from there (as
  a click on the caption does).
\<close>

theorem overlay_click_containment:
  assumes "selection s = Viewing v"
  shows "step s (OverlayClick EnlargedImage) = s
       \<and> selection (step s (OverlayClick EnlargedImage)) = Viewing v
       \<and> selection (step s (OverlayClick Backdrop)) = Idle
       \<and> selection (step s (OverlayClick Frame)) = Idle
       \<and> selection (step s (OverlayClick CloseButton)) = Idle
       \<and> selection (step s (OverlayClick CaptionText)) = Idle
       \<and> fullscreenImage (step s (OverlayClick Backdrop)) = JNull
       \<and> fullscreenImage (step s (OverlayClick Frame)) = JNull
       \<and> fullscreenImage (step s (OverlayClick CloseButton)) = JNull"
proof -
  from assms have t: "truthy (fullscreenImage s)"
    by (auto simp: selection_Viewing_iff)
  have a: "step s (OverlayClick EnlargedImage) = s"
    using t by (simp add: step.simps)
  from a assms have a2: "selection (step s (OverlayClick EnlargedImage)) = Viewing v"
    by (simp only:)
  have b: "selection (step s (OverlayClick Backdrop)) = Idle"
    "selection (step s (OverlayClick Frame)) = Idle"
    "selection (step s (OverlayClick CloseButton)) = Idle"
    "selection (step s (OverlayClick CaptionText)) = Idle"
    by (simp_all add: step_dismiss_idle)
  have c: "fullscreenImage (step s (OverlayClick Backdrop)) = JNull"
    "fullscreenImage (step s (OverlayClick Frame)) = JNull"
    "fullscreenImage (step s (OverlayClick CloseButton)) = JNull"
    using t by (auto simp: step.simps Let_def rerender_cell setFullscreenImage_def)
  from a a2 b c show ?thesis by blast
qed

text \<open>
  Claim C5. A dismiss action is a click on the backdrop or on the close control; its
  handler is \<^verbatim>\<open>setFullscreenImage(null)\<close>. From any state a dismiss gives the selection
  \<open>Idle\<close>; a second dismiss changes nothing; a dismiss while \<open>Idle\<close> leaves the state
  as it is; and after any sequence of tile clicks, from any state, one dismiss gives
  \<open>Idle\<close>.
\<close>

theorem dismiss_idempotent:
  assumes "r = Backdrop \<or> r = CloseButton"
  shows "selection (setFullscreenImage JNull s) = Idle
       \<and> selection (step s (OverlayClick r)) = Idle
       \<and> step (step s (OverlayClick r)) (OverlayClick r) = step s (OverlayClick r)
       \<and> (selection s = Idle \<longrightarrow> step s (OverlayClick r) = s)
       \<and> selection (run s (map TileClick clicks @ [OverlayClick r])) = Idle"
proof -
  from assms have ne: "r \<noteq> EnlargedImage"
    by auto
  have a: "selection (setFullscreenImage JNull s) = Idle"
    by (simp add: selection_def setFullscreenImage_def)
  have b: "selection (step t (OverlayClick r)) = Idle" for t
    using ne by (rule step_dismiss_idle)
  have c: "step (step s (OverlayClick r)) (OverlayClick r) = step s (OverlayClick r)"
    using b [of s] by (simp add: step.simps [of "step s (OverlayClick r)"] selection_Idle_iff)
  have d: "selection s = Idle \<longrightarrow> step s (OverlayClick r) = s"
    by (simp add: step.simps selection_Idle_iff)
  have e: "selection (run s (map TileClick clicks @ [OverlayClick r])) = Idle"
    by (simp only: run_snoc b)
  from a b c d e show ?thesis by blast
qed

text \<open>
  Claim C6. Two distinct tiles clicked one after the other, with no dismiss between: the
  selection is \<open>Viewing\<close> of the value of the second tile, the state is the one that the
  second click alone would have given, and the value of the second tile differs from the
  value of the first.
\<close>

theorem last_click_wins:
  assumes "i < length tiles" and "j < length tiles" and "i \<noteq> j"
  shows "selection (step (step s (TileClick i)) (TileClick j)) = Viewing (on_click (tiles ! j))
       \<and> step (step s (TileClick i)) (TileClick j) = step s (TileClick j)
       \<and> on_click (tiles ! j) \<noteq> on_click (tiles ! i)"
proof -
  have a: "step (step s (TileClick i)) (TileClick j) = step s (TileClick j)"
    using assms by (simp add: step.simps rerender_set rerender_twice set_twice)
  have b: "selection (step s (TileClick j)) = Viewing (on_click (tiles ! j))"
    using assms(2) by (rule selection_tile_click)
  have c: "on_click (tiles ! j) \<noteq> on_click (tiles ! i)"
    using assms by (simp add: payloads_differ)
  from a b c show ?thesis by simp
qed

theorem tile_click_from_idle_witness:
  "(2::nat) < length tiles \<and> selection initial_state = Idle
   \<and> selection (step initial_state (TileClick 2)) = Viewing (on_click (tiles ! 2))
   \<and> read_prop (on_click (tiles ! 2)) ''image'' = JStr (src (tiles ! 2))
   \<and> on_click (tiles ! 3) \<noteq> on_click (tiles ! 2)"
proof -
  have h1: "(2::nat) < length tiles" by (simp add: length_tiles)
  have h2: "selection initial_state = Idle" by (simp add: selection_def initial_state_def)
  have h3: "(3::nat) < length tiles" by (simp add: length_tiles)
  from tile_click_from_idle [OF h1 h2] h1 h2 h3 show ?thesis by auto
qed

theorem overlay_click_containment_witness:
  "selection (step initial_state (TileClick 0)) = Viewing (on_click (tiles ! 0))
   \<and> step (step initial_state (TileClick 0)) (OverlayClick EnlargedImage) = step initial_state (TileClick 0)
   \<and> selection (step (step initial_state (TileClick 0)) (OverlayClick Backdrop)) = Idle
   \<and> selection (step (step initial_state (TileClick 0)) (OverlayClick Frame)) = Idle
   \<and> selection (step (step initial_state (TileClick 0)) (OverlayClick CloseButton)) = Idle"
proof -
  have h: "selection (step initial_state (TileClick 0)) = Viewing (on_click (tiles ! 0))"
    by (rule selection_tile_click) (simp add: length_tiles)
  from overlay_click_containment [OF h] h show ?thesis by simp
qed

theorem dismiss_idempotent_witness:
  "(Backdrop = Backdrop \<or> Backdrop = CloseButton)
   \<and> selection (run initial_state (map TileClick [0, 5, 3] @ [OverlayClick Backdrop])) = Idle
   \<and> selection (step initial_state (OverlayClick Backdrop)) = Idle
   \<and> selection initial_state = Idle
   \<and> step initial_state (OverlayClick Backdrop) = initial_state"
proof -
  have h: "selection initial_state = Idle"
    by (simp add: selection_def initial_state_def)
  from dismiss_idempotent [of Backdrop initial_state "[0, 5, 3]"] h show ?thesis
    by simp
qed

theorem last_click_wins_witness:
  "(4::nat) < length tiles \<and> (9::nat) < length tiles \<and> (4::nat) \<noteq> 9
   \<and> selection (step (step initial_state (TileClick 4)) (TileClick 9)) = Viewing (on_click (tiles ! 9))
   \<and> on_click (tiles ! 9) \<noteq> on_click (tiles ! 4)"
proof -
  have h1: "(4::nat) < length tiles" and h2: "(9::nat) < length tiles"
    by (simp_all add: length_tiles)
  have h3: "(4::nat) \<noteq> 9" by simp
  from last_click_wins [OF h1 h2 h3, of initial_state] h1 h2 h3 show ?thesis
    by blast
qed

lemma encodeURIComponent_append:
  "encodeURIComponent (a @ b) = encodeURIComponent a @ encodeURIComponent b"
  by (simp add: encodeURIComponent_def)

lemma encoded_part:
  "sublist (encodeURIComponent l) (p @ encodeURIComponent (a @ l @ b))"
proof -
  have "p @ encodeURIComponent (a @ l @ b)
      = (p @ encodeURIComponent a) @ encodeURIComponent l @ encodeURIComponent b"
    by (simp add: encodeURIComponent_append)
  then show ?thesis
    by (simp only: sublist_appendI)
qed

lemma svg_contains:
  "sublist label (placeholder_svg label)"
  "sublist label (tool_svg label)"
  unfolding placeholder_svg_def tool_svg_def by (rule sublist_appendI)+

lemma data_uri_contains:
  "sublist (encodeURIComponent label) (data_uri (placeholder_svg label))"
  "sublist (encodeURIComponent label) (data_uri (tool_svg label))"
  unfolding data_uri_def placeholder_svg_def tool_svg_def by (rule encoded_part)+

lemma on_error_src_shape:
  "\<forall>t \<in> set tiles. on_error_src t = data_uri (placeholder_svg (error_text t))
       \<or> on_error_src t = data_uri (tool_svg (error_text t))"
  using items_tiles_payload group_error_text by (auto simp: tiles_def)

lemma step_overlay_cases:
  "fullscreenImage (step s (OverlayClick r)) = fullscreenImage s
   \<or> fullscreenImage (step s (OverlayClick r)) = JNull"
  by (cases r) (auto simp: step.simps Let_def rerender_cell setFullscreenImage_def)

lemma step_tile_cases:
  "fullscreenImage (step s (TileClick i)) = fullscreenImage s
   \<or> (i < length tiles \<and> fullscreenImage (step s (TileClick i)) = on_click (tiles ! i))"
  by (auto simp: step.simps rerender_cell setFullscreenImage_def)

lemma step_error_keeps: "fullscreenImage (step s (ImageError i)) = fullscreenImage s"
  by (simp add: step.simps)

lemma reachable_cell:
  "fullscreenImage (run initial_state evs) = JNull
   \<or> (\<exists>i < length tiles. fullscreenImage (run initial_state evs) = on_click (tiles ! i))"
proof (induction evs rule: rev_induct)
  case Nil
  show ?case by (simp add: run_def initial_state_def)
next
  case (snoc ev evs)
  show ?case
  proof (cases ev)
    case (TileClick i)
    with snoc step_tile_cases [of "run initial_state evs" i] show ?thesis
      by (auto simp: run_snoc)
  next
    case (OverlayClick r)
    with snoc step_overlay_cases [of "run initial_state evs" r] show ?thesis
      by (auto simp: run_snoc)
  next
    case (ImageError i)
    with snoc show ?thesis
      by (simp add: run_snoc step_error_keeps)
  qed
qed

lemma reachable_selection:
  "selection (run initial_state evs) = Idle
   \<or> (\<exists>i < length tiles. selection (run initial_state evs) = Viewing (on_click (tiles ! i)))"
  using reachable_cell [of evs] by (auto simp: selection_def on_click_truthy_nth)

lemma group_placeholders:
  "(\<forall>t \<in> set items_tiles.
       on_error_src t = data_uri (placeholder_svg (''Image '' @ to_str (read_prop (on_click t) ''id''))))
 \<and> (\<forall>t \<in> set cat_tiles. on_error_src t = data_uri (placeholder_svg ''Cat in a Box''))
 \<and> (\<forall>t \<in> set chai_tiles. on_error_src t = data_uri (placeholder_svg ''Chai Mahal''))
 \<and> (\<forall>t \<in> set harvest_tiles. on_error_src t = data_uri (placeholder_svg ''Harvest Connect''))
 \<and> (\<forall>t \<in> set tools_tiles. on_error_src t = data_uri (tool_svg ''Tool''))"
  using items_tiles_payload group_error_text by simp

lemma items_error_text: "map error_text items_tiles = [''Image 1'', ''Image 2'']"
  by (simp add: tiles_unfold)

text \<open>
  Claim C7, as amended. When the image of a tile fails to load, the handler puts a
  generated placeholder into the \<^verbatim>\<open>src\<close> of that tile's image: the data URI of an SVG
  whose text is the tile's fallback text, so the SVG contains that text and the data URI
  its percent-encoding. For a tile of the catalogue \<^verbatim>\<open>items\<close> the fallback text is
  \<^verbatim>\<open>Image\<close> followed by the item's id (\<^verbatim>\<open>Image 1\<close>, \<^verbatim>\<open>Image 2\<close>) in the 600 by 800
  template. For a tile of the four inline groups it is the name of the group:
  \<^verbatim>\<open>Cat in a Box\<close>, \<^verbatim>\<open>Chai Mahal\<close>, \<^verbatim>\<open>Harvest Connect\<close> in the 600 by 800 template,
  \<^verbatim>\<open>Tool\<close> in the 100 by 100 template; so all tiles of one such group get one and the
  same placeholder. The cell of the selection is unchanged, and so is the image of every
  other tile.
\<close>

theorem image_error_substitutes_placeholder:
  assumes "i < length tiles" and "length (img_src s) = length tiles"
  shows "fullscreenImage (step s (ImageError i)) = fullscreenImage s
       \<and> selection (step s (ImageError i)) = selection s
       \<and> length (img_src (step s (ImageError i))) = length (img_src s)
       \<and> img_src (step s (ImageError i)) ! i = on_error_src (tiles ! i)
       \<and> (\<forall>j < length tiles. j \<noteq> i \<longrightarrow> img_src (step s (ImageError i)) ! j = img_src s ! j)
       \<and> (on_error_src (tiles ! i) = data_uri (placeholder_svg (error_text (tiles ! i)))
          \<or> on_error_src (tiles ! i) = data_uri (tool_svg (error_text (tiles ! i))))
       \<and> sublist (error_text (tiles ! i)) (placeholder_svg (error_text (tiles ! i)))
       \<and> sublist (error_text (tiles ! i)) (tool_svg (error_text (tiles ! i)))
       \<and> sublist (encodeURIComponent (error_text (tiles ! i))) (on_error_src (tiles ! i))
       \<and> tiles ! i \<in> set items_tiles \<union> set cat_tiles \<union> set chai_tiles
                     \<union> set harvest_tiles \<union> set tools_tiles
       \<and> map error_text items_tiles = [''Image 1'', ''Image 2'']
       \<and> (\<forall>t \<in> set items_tiles.
             error_text t = ''Image '' @ to_str (read_prop (on_click t) ''id'')
           \<and> on_error_src t = data_uri (placeholder_svg (''Image '' @ to_str (read_prop (on_click t) ''id''))))
       \<and> (\<forall>t \<in> set cat_tiles. error_text t = ''Cat in a Box''
           \<and> on_error_src t = data_uri (placeholder_svg ''Cat in a Box''))
       \<and> (\<forall>t \<in> set chai_tiles. error_text t = ''Chai Mahal''
           \<and> on_error_src t = data_uri (placeholder_svg ''Chai Mahal''))
       \<and> (\<forall>t \<in> set harvest_tiles. error_text t = ''Harvest Connect''
           \<and> on_error_src t = data_uri (placeholder_svg ''Harvest Connect''))
       \<and> (\<forall>t \<in> set tools_tiles. error_text t = ''Tool''
           \<and> on_error_src t = data_uri (tool_svg ''Tool''))
       \<and> (\<forall>t \<in> set cat_tiles. \<forall>u \<in> set cat_tiles. on_error_src t = on_error_src u)
       \<and> (\<forall>t \<in> set chai_tiles. \<forall>u \<in> set chai_tiles. on_error_src t = on_error_src u)
       \<and> (\<forall>t \<in> set harvest_tiles. \<forall>u \<in> set harvest_tiles. on_error_src t = on_error_src u)
       \<and> (\<forall>t \<in> set tools_tiles. \<forall>u \<in> set tools_tiles. on_error_src t = on_error_src u)"
proof -
  let ?s = "step s (ImageError i)"
  have st: "?s = s\<lparr>img_src := (img_src s)[i := on_error_src (tiles ! i)]\<rparr>"
    using assms by (simp add: step.simps)
  have a: "fullscreenImage ?s = fullscreenImage s"
    by (rule step_error_keeps)
  have b: "selection ?s = selection s"
    by (simp add: selection_def a)
  have c: "length (img_src ?s) = length (img_src s)"
    by (simp add: st)
  have d: "img_src ?s ! i = on_error_src (tiles ! i)"
    using assms by (simp add: st)
  have e: "\<forall>j < length tiles. j \<noteq> i \<longrightarrow> img_src ?s ! j = img_src s ! j"
    by (simp add: st)
  have f: "on_error_src (tiles ! i) = data_uri (placeholder_svg (error_text (tiles ! i)))
          \<or> on_error_src (tiles ! i) = data_uri (tool_svg (error_text (tiles ! i)))"
    using on_error_src_shape nth_tiles_mem [OF assms(1)] by blast
  have g: "sublist (error_text (tiles ! i)) (placeholder_svg (error_text (tiles ! i)))"
    "sublist (error_text (tiles ! i)) (tool_svg (error_text (tiles ! i)))"
    by (rule svg_contains)+
  have h: "sublist (encodeURIComponent (error_text (tiles ! i))) (on_error_src (tiles ! i))"
    using f data_uri_contains [of "error_text (tiles ! i)"] by auto
  have m: "tiles ! i \<in> set items_tiles \<union> set cat_tiles \<union> set chai_tiles
                     \<union> set harvest_tiles \<union> set tools_tiles"
    using nth_tiles_mem [OF assms(1)] by (simp add: tiles_def)
  have k: "\<forall>t \<in> set items_tiles.
             error_text t = ''Image '' @ to_str (read_prop (on_click t) ''id'')
           \<and> on_error_src t = data_uri (placeholder_svg (''Image '' @ to_str (read_prop (on_click t) ''id'')))"
    using items_tiles_payload group_placeholders by blast
  have l: "\<forall>t \<in> set cat_tiles. error_text t = ''Cat in a Box''
           \<and> on_error_src t = data_uri (placeholder_svg ''Cat in a Box'')"
    "\<forall>t \<in> set chai_tiles. error_text t = ''Chai Mahal''
           \<and> on_error_src t = data_uri (placeholder_svg ''Chai Mahal'')"
    "\<forall>t \<in> set harvest_tiles. error_text t = ''Harvest Connect''
           \<and> on_error_src t = data_uri (placeholder_svg ''Harvest Connect'')"
    "\<forall>t \<in> set tools_tiles. error_text t = ''Tool''
           \<and> on_error_src t = data_uri (tool_svg ''Tool'')"
    using group_error_text group_placeholders by blast+
  have n: "\<forall>t \<in> set cat_tiles. \<forall>u \<in> set cat_tiles. on_error_src t = on_error_src u"
    "\<forall>t \<in> set chai_tiles. \<forall>u \<in> set chai_tiles. on_error_src t = on_error_src u"
    "\<forall>t \<in> set harvest_tiles. \<forall>u \<in> set harvest_tiles. on_error_src t = on_error_src u"
    "\<forall>t \<in> set tools_tiles. \<forall>u \<in> set tools_tiles. on_error_src t = on_error_src u"
    using l by simp_all
  show ?thesis
    by (intro conjI a b c d e f g h m items_error_text k l n)
qed

text \<open>
  Claim C7 as written asks for a placeholder that contains the identifying label of the
  item. The first two tiles of the group \<^verbatim>\<open>Cat in a Box\<close> (positions 2 and 3) show
  different images and select different items, but their fallback text is the name of the
  group and they get one and the same placeholder: nothing in it identifies the item.
\<close>
theorem placeholder_shared_counterexample:
  "src (tiles ! 2) \<noteq> src (tiles ! 3)
   \<and> on_click (tiles ! 2) \<noteq> on_click (tiles ! 3)
   \<and> error_text (tiles ! 2) = ''Cat in a Box''
   \<and> error_text (tiles ! 3) = ''Cat in a Box''
   \<and> on_error_src (tiles ! 2) = on_error_src (tiles ! 3)
   \<and> img_src (step initial_state (ImageError 2)) ! 2 = img_src (step initial_state (ImageError 3)) ! 3"
  by (simp add: tiles_unfold step.simps initial_state_def)

theorem image_error_substitutes_placeholder_witness:
  "(0::nat) < length tiles \<and> length (img_src initial_state) = length tiles
   \<and> tiles ! 0 \<in> set items_tiles
   \<and> error_text (tiles ! 0) = ''Image 1''
   \<and> img_src (step initial_state (ImageError 0)) ! 0 = data_uri (placeholder_svg ''Image 1'')
   \<and> img_src (step initial_state (ImageError 0)) ! 1 = ''images/porsche 2.jpg''
   \<and> selection (step initial_state (ImageError 0)) = Idle"
proof -
  have h1: "(0::nat) < length tiles" by (simp add: length_tiles)
  have h2: "length (img_src initial_state) = length tiles" by (simp add: initial_state_def)
  have h3: "tiles ! 0 \<in> set items_tiles" by (simp add: tiles_unfold)
  have h4: "to_str (read_prop (on_click (tiles ! 0)) ''id'') = ''1''" by (simp add: tiles_unfold)
  have h5: "on_error_src (tiles ! 0) = data_uri (placeholder_svg (error_text (tiles ! 0)))"
    using items_tiles_payload h3 by blast
  have h6: "img_src initial_state ! 1 = ''images/porsche 2.jpg''"
    by (simp add: initial_state_def tiles_unfold)
  have h7: "selection initial_state = Idle" by (simp add: selection_def initial_state_def)
  have h8: "(1::nat) < length tiles" by (simp add: length_tiles)
  note t = image_error_substitutes_placeholder [OF h1 h2]
  from t h3 have e: "error_text (tiles ! 0) = ''Image 1''" using h4 by auto
  from t h8 have o: "img_src (step initial_state (ImageError 0)) ! 1 = img_src initial_state ! 1"
    by auto
  from t have p: "img_src (step initial_state (ImageError 0)) ! 0 = on_error_src (tiles ! 0)"
    and q: "selection (step initial_state (ImageError 0)) = selection initial_state"
    by blast+
  from h1 h2 h3 e o p q h5 h6 h7 show ?thesis by simp
qed

text \<open>
  Claim C8, as amended. In every state the page reaches from its initial state, the
  selection is \<open>Idle\<close> or \<open>Viewing\<close> of the value that the click handler of one tile
  declares. That value always has a string image path and a string caption. For a tile of
  the four inline groups it is an object with exactly the fields \<^verbatim>\<open>image\<close> and
  \<^verbatim>\<open>caption\<close>; for a tile of the catalogue \<^verbatim>\<open>items\<close> it is the catalogue item
  itself, with its fields \<^verbatim>\<open>id\<close>, \<^verbatim>\<open>caption\<close> and \<^verbatim>\<open>image\<close>.
\<close>
theorem selection_holds_clicked_value:
  "(selection (run initial_state evs) = Idle
      \<or> (\<exists>i < length tiles. selection (run initial_state evs) = Viewing (on_click (tiles ! i))))
   \<and> (\<forall>t \<in> set tiles. \<exists>p c. read_prop (on_click t) ''image'' = JStr p
          \<and> read_prop (on_click t) ''caption'' = JStr c)
   \<and> (\<forall>t \<in> set items_tiles. on_click t \<in> set items
          \<and> field_names (on_click t) = [''id'', ''caption'', ''image''])
   \<and> (\<forall>t \<in> set (cat_tiles @ chai_tiles @ harvest_tiles @ tools_tiles).
          field_names (on_click t) = [''image'', ''caption''])"
proof -
  have a: "\<forall>t \<in> set tiles. \<exists>p c. read_prop (on_click t) ''image'' = JStr p
          \<and> read_prop (on_click t) ''caption'' = JStr c"
    using payload_strings by blast
  have b: "\<forall>t \<in> set items_tiles. on_click t \<in> set items
          \<and> field_names (on_click t) = [''id'', ''caption'', ''image'']"
    using items_tiles_payload by blast
  from reachable_selection [of evs] a b inline_tiles_payload show ?thesis by blast
qed

text \<open>
  Claim C8 as written asks for a copy that holds the image path and the caption and no
  other field of the catalogue. After a click on the first tile the selection is the
  first item of the catalogue, whose fields include \<^verbatim>\<open>id\<close>.
\<close>
theorem selection_carries_id_counterexample:
  "selection (step initial_state (TileClick 0)) = Viewing (items ! 0)
   \<and> field_names (items ! 0) = [''id'', ''caption'', ''image'']
   \<and> read_prop (items ! 0) ''id'' = JNum 1"
  by (simp add: step.simps length_tiles selection_def rerender_cell setFullscreenImage_def
      initial_state_def tiles_unfold)

theorem selection_holds_clicked_value_witness:
  "tiles ! 1 \<in> set items_tiles
   \<and> on_click (tiles ! 1) \<in> set items
   \<and> field_names (on_click (tiles ! 1)) = [''id'', ''caption'', ''image'']
   \<and> tiles ! 7 \<in> set (cat_tiles @ chai_tiles @ harvest_tiles @ tools_tiles)
   \<and> field_names (on_click (tiles ! 7)) = [''image'', ''caption'']"
proof -
  have h1: "tiles ! 1 \<in> set items_tiles" by (simp add: tiles_unfold)
  have h2: "tiles ! 7 \<in> set (cat_tiles @ chai_tiles @ harvest_tiles @ tools_tiles)"
    by (simp add: tiles_unfold)
  from selection_holds_clicked_value [of "[TileClick 1]"] h1 h2 show ?thesis by blast
qed

end
